theory Spec2Isabelle
  imports Main
begin

section \<open>Values, rows and store requests\<close>

text \<open>
  The tracker of \<^verbatim>\<open>src/js/database.js\<close> keeps two globals (\<^verbatim>\<open>currentSession\<close>,
  \<^verbatim>\<open>currentAttempts\<close>), reads the browser's local storage and talks to a remote store
  through the global \<^verbatim>\<open>supabase\<close> client. The client is not part of the file: it is a
  parameter of the model. Each \<^verbatim>\<open>await\<close> on it either rejects (an exception at the
  \<^verbatim>\<open>await\<close>) or resolves to an object whose \<^verbatim>\<open>data\<close> and \<^verbatim>\<open>error\<close> fields are read by
  destructuring; both fields may be null.
\<close>

datatype js_value = JNull | JBool bool | JNum int | JStr string

text \<open>A number the code computes: \<^verbatim>\<open>undefined + 1\<close> is \<^verbatim>\<open>NaN\<close>.\<close>

datatype js_number = Num int | NaN

type_synonym ident = nat
type_synonym timestamp = string

record supabase_error =
  message :: "string option"
  code :: "string option"

datatype exn = TypeError | Rejection string

datatype 'r response =
    Rejects exn
  | Resolves "'r option" "supabase_error option"

datatype 'a completion = Returns 'a | Throws exn

text \<open>
  Insert payloads carry the fields the code writes; rows add what the store holds. In a
  row the attempt number and the attempt identifier are the columns' numbers; in a
  payload they are what the code computed, which may be \<^verbatim>\<open>NaN\<close> or undefined (\<open>None\<close>).
\<close>

record session_payload =
  page_url :: string
  user_agent :: string
  anonymous_id :: "string option"

record learning_session = session_payload +
  ls_id :: ident
  session_end :: "timestamp option"

record 'n attempt_payload =
  session_id :: ident
  question_file :: string
  question_name :: "string option"
  question_prefix :: string
  seed :: "int option"
  attempt_number :: 'n

record attempt_update =
  submitted_at :: timestamp
  score :: js_value
  max_score :: js_value
  is_correct :: js_value

record attempt_row = "int attempt_payload" +
  at_id :: ident
  submission :: "attempt_update option"

record 'i input_payload =
  attempt_id :: 'i
  input_session_id :: ident
  input_name :: string
  input_value :: js_value
  input_type :: js_value
  is_final_answer :: bool
  validation_result :: js_value

record input_update =
  new_input_value :: js_value
  new_validation_result :: js_value
  new_timestamp :: timestamp

record input_row = "ident input_payload" +
  in_id :: ident
  recorded_at :: "timestamp option"

text \<open>
  One constructor per query the file builds. \<open>Select_question_attempts i\<close> is
  \<^verbatim>\<open>from('question_attempts').select('id').eq('id', i).maybeSingle()\<close>;
  \<open>Select_input_tracking a n\<close> is the select of \<^verbatim>\<open>trackConsolidatedInput\<close>, filtered by
  attempt identifier, input name and \<^verbatim>\<open>is_final_answer = true\<close>; the updates are filtered
  by \<^verbatim>\<open>eq('id', i)\<close>. Where the identifier is \<^verbatim>\<open>attempt.id\<close> it is an option: \<open>None\<close> is
  undefined, the \<^verbatim>\<open>id\<close> of a value that is no row.
\<close>

datatype request =
    Insert_learning_sessions session_payload
  | Update_learning_sessions timestamp ident
  | Insert_question_attempts "js_number attempt_payload"
  | Update_question_attempts attempt_update "ident option"
  | Select_question_attempts "ident option"
  | Select_input_tracking "ident option" string
  | Update_input_tracking input_update ident
  | Insert_input_tracking "ident option input_payload"

fun is_write :: "request \<Rightarrow> bool" where
  "is_write (Select_question_attempts i) = False"
| "is_write (Select_input_tracking a n) = False"
| "is_write q = True"

text \<open>
  The client, over a store state \<open>'db\<close> of its own: every query takes the store state and
  gives the response with the next store state. Nothing is assumed of these functions.
\<close>

record 'db client =
  insert_learning_sessions :: "session_payload \<Rightarrow> 'db \<Rightarrow> learning_session response \<times> 'db"
  update_learning_sessions :: "timestamp \<Rightarrow> ident \<Rightarrow> 'db \<Rightarrow> unit response \<times> 'db"
  insert_question_attempts ::
    "js_number attempt_payload \<Rightarrow> 'db \<Rightarrow> attempt_row response \<times> 'db"
  update_question_attempts ::
    "attempt_update \<Rightarrow> ident option \<Rightarrow> 'db \<Rightarrow> attempt_row response \<times> 'db"
  select_question_attempts :: "ident option \<Rightarrow> 'db \<Rightarrow> ident response \<times> 'db"
  select_input_tracking :: "ident option \<Rightarrow> string \<Rightarrow> 'db \<Rightarrow> ident response \<times> 'db"
  update_input_tracking :: "input_update \<Rightarrow> ident \<Rightarrow> 'db \<Rightarrow> input_row response \<times> 'db"
  insert_input_tracking ::
    "ident option input_payload \<Rightarrow> 'db \<Rightarrow> input_row response \<times> 'db"

subsection \<open>The object behind currentAttempts\<close>

text \<open>
  \<^verbatim>\<open>currentAttempts\<close> is a plain object, \<^verbatim>\<open>{}\<close> at the start (line 6), read and written
  by \<^verbatim>\<open>currentAttempts[qprefix]\<close>. It has its own properties, each holding a row or null
  (the \<^verbatim>\<open>data\<close> of a response), and a prototype: \<^verbatim>\<open>Object.prototype\<close> at the start, and
  after a write under the name \<^verbatim>\<open>__proto__\<close>, which goes to the setter of
  \<^verbatim>\<open>Object.prototype\<close>, the row written or null.
\<close>

datatype prototype = Object_prototype | Row_prototype attempt_row | Null_prototype

record attempts_object =
  own :: "string \<rightharpoonup> attempt_row option"
  proto :: prototype

definition empty_object :: attempts_object where
  "empty_object = \<lparr>own = Map.empty, proto = Object_prototype\<rparr>"

text \<open>
  What a read gives, as far as the code tells values apart: nothing (undefined, null or
  another value that \<^verbatim>\<open>!\<close> takes for false), an attempt row, or a value that counts as
  true and is no row, so that its \<^verbatim>\<open>id\<close> and its \<^verbatim>\<open>attempt_number\<close> are undefined.
\<close>

datatype cached = Nothing | Attempt attempt_row | Foreign

text \<open>The members of \<^verbatim>\<open>Object.prototype\<close>: eleven functions and the accessor \<^verbatim>\<open>__proto__\<close>.\<close>

definition object_prototype_names :: "string list" where
  "object_prototype_names =
     [''constructor'', ''hasOwnProperty'', ''isPrototypeOf'', ''propertyIsEnumerable'',
      ''toLocaleString'', ''toString'', ''valueOf'', ''__defineGetter__'',
      ''__defineSetter__'', ''__lookupGetter__'', ''__lookupSetter__'', ''__proto__'']"

fun truthy :: "js_value \<Rightarrow> bool" where
  "truthy JNull = False"
| "truthy (JBool b) = b"
| "truthy (JNum n) = (n \<noteq> 0)"
| "truthy (JStr s) = (s \<noteq> [])"

text \<open>
  A row that has become the prototype is read through by the names of its columns;
  \<open>column r p\<close> is the value of column \<open>p\<close> of \<open>r\<close> (null where the column is null) and
  \<open>None\<close> when the row has no such column.
\<close>

definition column :: "attempt_row \<Rightarrow> string \<Rightarrow> js_value option" where
  "column r p =
     (if p = ''id'' then Some (JNum (int (at_id r)))
      else if p = ''session_id'' then Some (JNum (int (session_id r)))
      else if p = ''question_file'' then Some (JStr (question_file r))
      else if p = ''question_name''
        then Some (case question_name r of None \<Rightarrow> JNull | Some n \<Rightarrow> JStr n)
      else if p = ''question_prefix'' then Some (JStr (question_prefix r))
      else if p = ''seed'' then Some (case seed r of None \<Rightarrow> JNull | Some k \<Rightarrow> JNum k)
      else if p = ''attempt_number'' then Some (JNum (attempt_number r))
      else if p = ''submitted_at''
        then Some (case submission r of None \<Rightarrow> JNull | Some u \<Rightarrow> JStr (submitted_at u))
      else if p = ''score''
        then Some (case submission r of None \<Rightarrow> JNull | Some u \<Rightarrow> score u)
      else if p = ''max_score''
        then Some (case submission r of None \<Rightarrow> JNull | Some u \<Rightarrow> max_score u)
      else if p = ''is_correct''
        then Some (case submission r of None \<Rightarrow> JNull | Some u \<Rightarrow> is_correct u)
      else None)"

definition property_read :: "attempts_object \<Rightarrow> string \<Rightarrow> cached" where
  "property_read obj p =
     (case own obj p of
        Some None \<Rightarrow> Nothing
      | Some (Some r) \<Rightarrow> Attempt r
      | None \<Rightarrow>
          (case proto obj of
             Null_prototype \<Rightarrow> Nothing
           | Object_prototype \<Rightarrow> if p \<in> set object_prototype_names then Foreign else Nothing
           | Row_prototype r \<Rightarrow>
               if p = ''__proto__'' then Attempt r
               else (case column r p of
                       Some v \<Rightarrow> if truthy v then Foreign else Nothing
                     | None \<Rightarrow>
                         if p \<in> set object_prototype_names then Foreign else Nothing)))"

text \<open>
  A write makes or changes an own property, except under the name \<^verbatim>\<open>__proto__\<close> while
  that is not an own property and the setter is still in reach: then it changes the
  prototype.
\<close>

definition property_write :: "attempts_object \<Rightarrow> string \<Rightarrow> attempt_row option \<Rightarrow> attempts_object" where
  "property_write obj p data =
     (if p = ''__proto__'' \<and> own obj p = None \<and> proto obj \<noteq> Null_prototype
      then obj\<lparr>proto := (case data of None \<Rightarrow> Null_prototype | Some r \<Rightarrow> Row_prototype r)\<rparr>
      else obj\<lparr>own := (own obj)(p \<mapsto> data)\<rparr>)"

text \<open>\<^verbatim>\<open>attempt.id\<close>, for a value that \<^verbatim>\<open>!\<close> took for true.\<close>

fun id_of :: "cached \<Rightarrow> ident option completion" where
  "id_of (Attempt a) = Returns (Some (at_id a))"
| "id_of Foreign = Returns None"
| "id_of Nothing = Throws TypeError"

subsection \<open>The page\<close>

text \<open>
  The page: the two globals, local storage, the store behind the client, and the trace of
  the requests sent so far (oldest first).
\<close>

record 'db page =
  currentSession :: "learning_session option"
  currentAttempts :: attempts_object
  localStorage :: "string \<rightharpoonup> string"
  database :: "'db"
  issued :: "request list"

text \<open>
  What the code reads from the browser: the page address, the user agent, the decimal
  text of \<^verbatim>\<open>Date.now()\<close>, the nine characters cut from \<^verbatim>\<open>Math.random().toString(36)\<close> and
  the text of \<^verbatim>\<open>new Date().toISOString()\<close>.
\<close>

record env =
  href :: string
  userAgent :: string
  date_now :: string
  random_suffix :: string
  iso_now :: timestamp

definition send :: "request \<Rightarrow> ('db \<Rightarrow> 'r response \<times> 'db) \<Rightarrow> 'db page \<Rightarrow> 'r response \<times> 'db page" where
  "send q f w =
     (case f (database w) of
        (r, d) \<Rightarrow> (r, w\<lparr>database := d, issued := issued w @ [q]\<rparr>))"

text \<open>A \<^verbatim>\<open>catch\<close> block that logs and returns null.\<close>

definition catch_null :: "'a option completion \<times> 's \<Rightarrow> 'a option completion \<times> 's" where
  "catch_null r =
     (case r of
        (Throws x, w) \<Rightarrow> (Returns None, w)
      | (Returns v, w) \<Rightarrow> (Returns v, w))"

section \<open>The anonymous identifier\<close>

definition generateAnonymousId :: "env \<Rightarrow> (string \<rightharpoonup> string) \<Rightarrow> string \<times> (string \<rightharpoonup> string)" where
  "generateAnonymousId e ls =
     (let fresh = ''anon_'' @ date_now e @ ''_'' @ random_suffix e in
      case ls ''anonymousUserId'' of
        None \<Rightarrow> (fresh, ls(''anonymousUserId'' \<mapsto> fresh))
      | Some a \<Rightarrow> if a = [] then (fresh, ls(''anonymousUserId'' \<mapsto> fresh)) else (a, ls))"

section \<open>The missing-column test\<close>

text \<open>
  \<^verbatim>\<open>/anonymous_id/i.test(error.message || '')\<close>: the pattern occurs somewhere in the message,
  letters compared without case. Without the \<^verbatim>\<open>u\<close> flag only the ASCII letters fold.
  \<open>lower_ascii\<close> sets the bit of value 32 in the codes 65 to 90, the capital letters.
\<close>

definition lower_ascii :: "char \<Rightarrow> char" where
  "lower_ascii c =
     (if 65 \<le> (of_char c :: nat) \<and> (of_char c :: nat) \<le> 90
      then (case c of Char b0 b1 b2 b3 b4 b5 b6 b7 \<Rightarrow> Char b0 b1 b2 b3 b4 True b6 b7)
      else c)"

fun starts_with :: "string \<Rightarrow> string \<Rightarrow> bool" where
  "starts_with [] s = True"
| "starts_with (p # ps) [] = False"
| "starts_with (p # ps) (c # cs) = (p = c \<and> starts_with ps cs)"

fun contains :: "string \<Rightarrow> string \<Rightarrow> bool" where
  "contains p [] = (p = [])"
| "contains p (c # cs) = (starts_with p (c # cs) \<or> contains p cs)"

definition matches_anonymous_id :: "string \<Rightarrow> bool" where
  "matches_anonymous_id m = contains ''anonymous_id'' (map lower_ascii m)"

definition missing_column :: "supabase_error option \<Rightarrow> bool" where
  "missing_column error =
     (case error of
        None \<Rightarrow> False
      | Some x \<Rightarrow>
          code x = Some ''42703''
          \<or> matches_anonymous_id (case message x of None \<Rightarrow> [] | Some m \<Rightarrow> m))"

section \<open>The operations\<close>

text \<open>
  Every operation takes the \<^verbatim>\<open>supabase\<close> global (\<open>None\<close> when tracking is not configured)
  and the page, and gives how the call completes with the page afterwards. Logging has no
  effect on either and is left out. Inside a \<^verbatim>\<open>try\<close>, a rejected \<^verbatim>\<open>await\<close> and a property
  read on null are \<open>Throws\<close>; \<open>catch_null\<close> is the \<^verbatim>\<open>catch\<close> block around it.
\<close>

definition initializeDatabaseSession ::
  "'db client option \<Rightarrow> env \<Rightarrow> 'db page \<Rightarrow> learning_session option completion \<times> 'db page" where
  "initializeDatabaseSession supabase e w =
     (case supabase of
        None \<Rightarrow> (Returns None, w)
      | Some B \<Rightarrow>
          catch_null
            (case generateAnonymousId e (localStorage w) of
               (anonymousId, ls) \<Rightarrow>
                 (let insertPayload =
                        \<lparr>page_url = href e, user_agent = userAgent e,
                         anonymous_id = Some anonymousId\<rparr>;
                      fallbackPayload =
                        \<lparr>page_url = href e, user_agent = userAgent e, anonymous_id = None\<rparr>
                  in case send (Insert_learning_sessions insertPayload)
                            (insert_learning_sessions B insertPayload)
                            (w\<lparr>localStorage := ls\<rparr>) of
                       (Rejects x, w1) \<Rightarrow> (Throws x, w1)
                     | (Resolves data0 error0, w1) \<Rightarrow>
                         (case (if missing_column error0
                                then send (Insert_learning_sessions fallbackPayload)
                                       (insert_learning_sessions B fallbackPayload) w1
                                else (Resolves data0 error0, w1)) of
                            (Rejects x, w2) \<Rightarrow> (Throws x, w2)
                          | (Resolves data error, w2) \<Rightarrow>
                              (case error of
                                 Some x \<Rightarrow> (Returns None, w2)
                               | None \<Rightarrow>
                                   (case data of
                                      None \<Rightarrow> (Throws TypeError, w2\<lparr>currentSession := None\<rparr>)
                                    | Some r \<Rightarrow>
                                        (Returns (Some r), w2\<lparr>currentSession := Some r\<rparr>)))))))"

definition createQuestionAttempt ::
  "'db client option \<Rightarrow> string \<Rightarrow> string option \<Rightarrow> string \<Rightarrow> int option \<Rightarrow> 'db page
     \<Rightarrow> attempt_row option completion \<times> 'db page" where
  "createQuestionAttempt supabase qfile qname qprefix seed0 w =
     (case supabase of
        None \<Rightarrow> (Returns None, w)
      | Some B \<Rightarrow>
          (case currentSession w of
             None \<Rightarrow> (Returns None, w)
           | Some cs \<Rightarrow>
               catch_null
                 (let attemptNumber =
                        (case property_read (currentAttempts w) qprefix of
                           Nothing \<Rightarrow> Num 1
                         | Attempt existingAttempt \<Rightarrow> Num (attempt_number existingAttempt + 1)
                         | Foreign \<Rightarrow> NaN);
                      row =
                        \<lparr>session_id = ls_id cs, question_file = qfile,
                         question_name =
                           (case qname of None \<Rightarrow> None
                            | Some n \<Rightarrow> if n = [] then None else Some n),
                         question_prefix = qprefix,
                         seed =
                           (case seed0 of None \<Rightarrow> None
                            | Some k \<Rightarrow> if k = 0 then None else Some k),
                         attempt_number = attemptNumber\<rparr>
                  in case send (Insert_question_attempts row)
                            (insert_question_attempts B row) w of
                       (Rejects x, w1) \<Rightarrow> (Throws x, w1)
                     | (Resolves data error, w1) \<Rightarrow>
                         (case error of
                            Some x \<Rightarrow> (Returns None, w1)
                          | None \<Rightarrow>
                              (let w2 = w1\<lparr>currentAttempts :=
                                            property_write (currentAttempts w1) qprefix data\<rparr>
                               in case data of
                                    None \<Rightarrow> (Throws TypeError, w2)
                                  | Some r \<Rightarrow> (Returns (Some r), w2))))))"

text \<open>
  In the two operations below \<^verbatim>\<open>attempt\<close> is what the read gave once the guard has let it
  pass: a row, or a value that is no row, whose \<^verbatim>\<open>id\<close> is undefined.
\<close>

definition updateQuestionAttempt ::
  "'db client option \<Rightarrow> env \<Rightarrow> string \<Rightarrow> js_value \<Rightarrow> js_value \<Rightarrow> js_value \<Rightarrow> 'db page
     \<Rightarrow> attempt_row option completion \<times> 'db page" where
  "updateQuestionAttempt supabase e qprefix score0 maxScore isCorrect w =
     (case supabase of
        None \<Rightarrow> (Returns None, w)
      | Some B \<Rightarrow>
          (if property_read (currentAttempts w) qprefix = Nothing then (Returns None, w)
           else
             catch_null
               (let attempt = property_read (currentAttempts w) qprefix;
                    fields =
                      \<lparr>submitted_at = iso_now e, score = score0, max_score = maxScore,
                       is_correct = isCorrect\<rparr>
                in case id_of attempt of
                     Throws x \<Rightarrow> (Throws x, w)
                   | Returns attempt_id0 \<Rightarrow>
                       (case send (Update_question_attempts fields attempt_id0)
                               (update_question_attempts B fields attempt_id0) w of
                          (Rejects x, w1) \<Rightarrow> (Throws x, w1)
                        | (Resolves data error, w1) \<Rightarrow>
                            (case error of
                               Some x \<Rightarrow> (Returns None, w1)
                             | None \<Rightarrow>
                                 (let w2 = w1\<lparr>currentAttempts :=
                                               property_write (currentAttempts w1) qprefix data\<rparr>
                                  in case data of
                                       None \<Rightarrow> (Throws TypeError, w2)
                                     | Some r \<Rightarrow> (Returns (Some r), w2)))))))"

text \<open>
  \<^verbatim>\<open>trackConsolidatedInput\<close> has no \<^verbatim>\<open>try\<close> of its own: a rejection leaves it as an
  exception. It reads \<^verbatim>\<open>currentSession.id\<close> while building the row to insert.
\<close>

definition trackConsolidatedInput ::
  "'db client \<Rightarrow> env \<Rightarrow> cached \<Rightarrow> string \<Rightarrow> js_value \<Rightarrow> js_value \<Rightarrow> js_value \<Rightarrow> 'db page
     \<Rightarrow> input_row option completion \<times> 'db page" where
  "trackConsolidatedInput B e attempt inputName inputValue inputType validationResult w =
     (case id_of attempt of
        Throws x \<Rightarrow> (Throws x, w)
      | Returns attempt_id0 \<Rightarrow>
          (case send (Select_input_tracking attempt_id0 inputName)
                  (select_input_tracking B attempt_id0 inputName) w of
             (Rejects x, w1) \<Rightarrow> (Throws x, w1)
           | (Resolves existing error0, w1) \<Rightarrow>
               (case existing of
                  Some existing_id \<Rightarrow>
                    (let fields =
                           \<lparr>new_input_value = inputValue,
                            new_validation_result = validationResult,
                            new_timestamp = iso_now e\<rparr>
                     in case send (Update_input_tracking fields existing_id)
                               (update_input_tracking B fields existing_id) w1 of
                          (Rejects x, w2) \<Rightarrow> (Throws x, w2)
                        | (Resolves data error, w2) \<Rightarrow>
                            (case error of
                               Some x \<Rightarrow> (Returns None, w2)
                             | None \<Rightarrow> (Returns data, w2)))
                | None \<Rightarrow>
                    (case currentSession w1 of
                       None \<Rightarrow> (Throws TypeError, w1)
                     | Some cs \<Rightarrow>
                         (let row =
                                \<lparr>attempt_id = attempt_id0, input_session_id = ls_id cs,
                                 input_name = inputName, input_value = inputValue,
                                 input_type = inputType, is_final_answer = True,
                                 validation_result = validationResult\<rparr>
                          in case send (Insert_input_tracking row)
                                    (insert_input_tracking B row) w1 of
                               (Rejects x, w2) \<Rightarrow> (Throws x, w2)
                             | (Resolves data error, w2) \<Rightarrow>
                                 (case error of
                                    Some x \<Rightarrow> (Returns None, w2)
                                  | None \<Rightarrow> (Returns data, w2)))))))"

definition trackInput ::
  "'db client option \<Rightarrow> env \<Rightarrow> string \<Rightarrow> string \<Rightarrow> js_value \<Rightarrow> js_value \<Rightarrow> bool \<Rightarrow> js_value
     \<Rightarrow> 'db page \<Rightarrow> input_row option completion \<times> 'db page" where
  "trackInput supabase e qprefix inputName inputValue inputType isFinalAnswer validationResult w =
     (case supabase of
        None \<Rightarrow> (Returns None, w)
      | Some B \<Rightarrow>
          (case currentSession w of
             None \<Rightarrow> (Returns None, w)
           | Some cs \<Rightarrow>
               (if property_read (currentAttempts w) qprefix = Nothing then (Returns None, w)
                else
                  catch_null
                    (let attempt = property_read (currentAttempts w) qprefix
                     in case id_of attempt of
                          Throws x \<Rightarrow> (Throws x, w)
                        | Returns attempt_id0 \<Rightarrow>
                            (case send (Select_question_attempts attempt_id0)
                                    (select_question_attempts B attempt_id0) w of
                               (Rejects x, w1) \<Rightarrow> (Throws x, w1)
                             | (Resolves attemptExists error, w1) \<Rightarrow>
                                 (case attemptExists of
                                    None \<Rightarrow> (Returns None, w1)
                                  | Some i \<Rightarrow>
                                      if isFinalAnswer
                                      then trackConsolidatedInput B e attempt inputName
                                             inputValue inputType validationResult w1
                                      else (Returns None, w1)))))))"

text \<open>The throttled insert of non-final values; nothing in the file calls it.\<close>

definition trackRegularInput ::
  "'db client \<Rightarrow> cached \<Rightarrow> string \<Rightarrow> js_value \<Rightarrow> js_value \<Rightarrow> js_value \<Rightarrow> 'db page
     \<Rightarrow> input_row option completion \<times> 'db page" where
  "trackRegularInput B attempt inputName inputValue inputType validationResult w =
     (if inputValue = JStr [] \<or> inputValue = JStr ''EMPTY'' then (Returns None, w)
      else
        (case id_of attempt of
           Throws x \<Rightarrow> (Throws x, w)
         | Returns attempt_id0 \<Rightarrow>
             (case currentSession w of
                None \<Rightarrow> (Throws TypeError, w)
              | Some cs \<Rightarrow>
                  (let row =
                         \<lparr>attempt_id = attempt_id0, input_session_id = ls_id cs,
                          input_name = inputName, input_value = inputValue,
                          input_type = inputType, is_final_answer = False,
                          validation_result = validationResult\<rparr>
                   in case send (Insert_input_tracking row) (insert_input_tracking B row) w of
                        (Rejects x, w1) \<Rightarrow> (Throws x, w1)
                      | (Resolves data error, w1) \<Rightarrow>
                          (case error of
                             Some x \<Rightarrow> (Returns None, w1)
                           | None \<Rightarrow> (Returns data, w1))))))"

definition endDatabaseSession :: "'db client option \<Rightarrow> env \<Rightarrow> 'db page \<Rightarrow> unit completion \<times> 'db page" where
  "endDatabaseSession supabase e w =
     (case supabase of
        None \<Rightarrow> (Returns (), w)
      | Some B \<Rightarrow>
          (case currentSession w of
             None \<Rightarrow> (Returns (), w)
           | Some cs \<Rightarrow>
               (case (case send (Update_learning_sessions (iso_now e) (ls_id cs))
                             (update_learning_sessions B (iso_now e) (ls_id cs)) w of
                        (Rejects x, w1) \<Rightarrow> (Throws x, w1)
                      | (Resolves data error, w1) \<Rightarrow> (Returns (), w1)) of
                  (Throws x, w2) \<Rightarrow> (Returns (), w2)
                | (Returns u, w2) \<Rightarrow> (Returns u, w2))))"

text \<open>
  \<^verbatim>\<open>getInputDetails\<close> reads four properties of its argument. The argument is \<open>None\<close> for
  null or undefined; a property the object does not have is \<open>None\<close>. \<^verbatim>\<open>toLowerCase\<close> is
  taken on ASCII, which tag names are.
\<close>

record element =
  el_type :: "string option"
  tagName :: "string option"
  el_value :: "string option"
  checked :: bool

definition getInputDetails :: "element option \<Rightarrow> (string \<times> string option) completion" where
  "getInputDetails inputElement =
     (case inputElement of
        None \<Rightarrow> Throws TypeError
      | Some el \<Rightarrow>
          (case (case (case el_type el of
                         None \<Rightarrow> None
                       | Some t \<Rightarrow> if t = [] then None else Some t) of
                   Some t \<Rightarrow> Returns t
                 | None \<Rightarrow>
                     (case tagName el of
                        None \<Rightarrow> Throws TypeError
                      | Some n \<Rightarrow> Returns (map lower_ascii n))) of
             Throws x \<Rightarrow> Throws x
           | Returns inputType \<Rightarrow>
               Returns (inputType,
                 if inputType = ''checkbox'' \<or> inputType = ''radio''
                 then (if checked el then el_value el else Some [])
                 else el_value el)))"

section \<open>A store to run the tracker against\<close>

text \<open>
  Modelled from the spec: the backend data store, which is outside the repository. Its
  interface (section 6 of the specification) is select giving zero or one row or an
  error, insert giving the created row or an error, update giving the updated row or an
  error, all filtered by equality on named columns, over the three tables
  \<^verbatim>\<open>learning_sessions\<close>, \<^verbatim>\<open>question_attempts\<close> and \<^verbatim>\<open>input_tracking\<close>. Here a table is
  the list of its rows, oldest first, and the store assigns identifiers from a counter.
  \<^verbatim>\<open>single()\<close> is an error unless exactly one row is concerned, and then nothing is
  written; \<^verbatim>\<open>maybeSingle()\<close> is an error on more than one row. No row's column is equal to
  an undefined value, and the attempt number of an attempt and the attempt identifier of
  an input are columns that must hold a number: an insert that brings \<^verbatim>\<open>NaN\<close> or nothing
  for them is refused.
\<close>

record store =
  learning_sessions :: "learning_session list"
  question_attempts :: "attempt_row list"
  input_tracking :: "input_row list"
  next_id :: ident

definition no_single_row :: supabase_error where
  "no_single_row =
     \<lparr>message = Some ''JSON object requested, multiple (or no) rows returned'',
      code = Some ''PGRST116''\<rparr>"

definition not_null_violation :: supabase_error where
  "not_null_violation =
     \<lparr>message = Some ''null value in column violates not-null constraint'',
      code = Some ''23502''\<rparr>"

definition maybeSingle :: "'r list \<Rightarrow> 'r response" where
  "maybeSingle rows =
     (case rows of
        [] \<Rightarrow> Resolves None None
      | [r] \<Rightarrow> Resolves (Some r) None
      | r # r' # rs \<Rightarrow> Resolves None (Some no_single_row))"

definition store_insert_session :: "session_payload \<Rightarrow> store \<Rightarrow> learning_session response \<times> store" where
  "store_insert_session p db =
     (let r = \<lparr>page_url = page_url p, user_agent = user_agent p, anonymous_id = anonymous_id p,
               ls_id = next_id db, session_end = None\<rparr>
      in (Resolves (Some r) None,
          db\<lparr>learning_sessions := learning_sessions db @ [r], next_id := Suc (next_id db)\<rparr>))"

definition store_end_session :: "timestamp \<Rightarrow> ident \<Rightarrow> store \<Rightarrow> unit response \<times> store" where
  "store_end_session t i db =
     (Resolves None None,
      db\<lparr>learning_sessions :=
            map (\<lambda>r. if ls_id r = i then r\<lparr>session_end := Some t\<rparr> else r) (learning_sessions db)\<rparr>)"

definition store_insert_attempt ::
  "js_number attempt_payload \<Rightarrow> store \<Rightarrow> attempt_row response \<times> store" where
  "store_insert_attempt p db =
     (case attempt_number p of
        NaN \<Rightarrow> (Resolves None (Some not_null_violation), db)
      | Num k \<Rightarrow>
          (let r = \<lparr>session_id = session_id p, question_file = question_file p,
                    question_name = question_name p, question_prefix = question_prefix p,
                    seed = seed p, attempt_number = k,
                    at_id = next_id db, submission = None\<rparr>
           in (Resolves (Some r) None,
               db\<lparr>question_attempts := question_attempts db @ [r],
                  next_id := Suc (next_id db)\<rparr>)))"

definition store_update_attempt ::
  "attempt_update \<Rightarrow> ident option \<Rightarrow> store \<Rightarrow> attempt_row response \<times> store" where
  "store_update_attempt f i db =
     (case filter (\<lambda>r. Some (at_id r) = i) (question_attempts db) of
        [r] \<Rightarrow>
          (Resolves (Some (r\<lparr>submission := Some f\<rparr>)) None,
           db\<lparr>question_attempts :=
                 map (\<lambda>x. if Some (at_id x) = i then x\<lparr>submission := Some f\<rparr> else x)
                   (question_attempts db)\<rparr>)
      | _ \<Rightarrow> (Resolves None (Some no_single_row), db))"

definition store_select_attempt :: "ident option \<Rightarrow> store \<Rightarrow> ident response \<times> store" where
  "store_select_attempt i db =
     (maybeSingle (map at_id (filter (\<lambda>r. Some (at_id r) = i) (question_attempts db))), db)"

definition final_answers :: "ident \<Rightarrow> string \<Rightarrow> store \<Rightarrow> input_row list" where
  "final_answers a n db =
     filter (\<lambda>r. attempt_id r = a \<and> input_name r = n \<and> is_final_answer r) (input_tracking db)"

definition store_select_input :: "ident option \<Rightarrow> string \<Rightarrow> store \<Rightarrow> ident response \<times> store" where
  "store_select_input a n db =
     (case a of
        None \<Rightarrow> (Resolves None None, db)
      | Some i \<Rightarrow> (maybeSingle (map in_id (final_answers i n db)), db))"

definition apply_input_update :: "input_update \<Rightarrow> input_row \<Rightarrow> input_row" where
  "apply_input_update f r =
     r\<lparr>input_value := new_input_value f, validation_result := new_validation_result f,
       recorded_at := Some (new_timestamp f)\<rparr>"

definition store_update_input :: "input_update \<Rightarrow> ident \<Rightarrow> store \<Rightarrow> input_row response \<times> store" where
  "store_update_input f i db =
     (case filter (\<lambda>r. in_id r = i) (input_tracking db) of
        [r] \<Rightarrow>
          (Resolves (Some (apply_input_update f r)) None,
           db\<lparr>input_tracking :=
                 map (\<lambda>x. if in_id x = i then apply_input_update f x else x) (input_tracking db)\<rparr>)
      | _ \<Rightarrow> (Resolves None (Some no_single_row), db))"

definition store_insert_input ::
  "ident option input_payload \<Rightarrow> store \<Rightarrow> input_row response \<times> store" where
  "store_insert_input p db =
     (case attempt_id p of
        None \<Rightarrow> (Resolves None (Some not_null_violation), db)
      | Some a \<Rightarrow>
          (let r = \<lparr>attempt_id = a, input_session_id = input_session_id p,
                    input_name = input_name p, input_value = input_value p,
                    input_type = input_type p, is_final_answer = is_final_answer p,
                    validation_result = validation_result p,
                    in_id = next_id db, recorded_at = None\<rparr>
           in (Resolves (Some r) None,
               db\<lparr>input_tracking := input_tracking db @ [r], next_id := Suc (next_id db)\<rparr>)))"

definition store_client :: "store client" where
  "store_client =
     \<lparr>insert_learning_sessions = store_insert_session,
      update_learning_sessions = store_end_session,
      insert_question_attempts = store_insert_attempt,
      update_question_attempts = store_update_attempt,
      select_question_attempts = store_select_attempt,
      select_input_tracking = store_select_input,
      update_input_tracking = store_update_input,
      insert_input_tracking = store_insert_input\<rparr>"

text \<open>Identifiers are a key of \<^verbatim>\<open>input_tracking\<close>, and the counter is beyond all of them.\<close>

definition input_keys_ok :: "store \<Rightarrow> bool" where
  "input_keys_ok db =
     (distinct (map in_id (input_tracking db))
      \<and> list_all (\<lambda>r. in_id r < next_id db) (input_tracking db))"

definition empty_store :: store where
  "empty_store =
     \<lparr>learning_sessions = [], question_attempts = [], input_tracking = [], next_id = 1\<rparr>"

text \<open>
  Modelled from the spec: the schema drift of section 7, a store whose
  \<^verbatim>\<open>learning_sessions\<close> table has no \<^verbatim>\<open>anonymous_id\<close> column. An insert that names the
  column is refused; the store's error names the column in its message.
\<close>

definition unknown_column :: supabase_error where
  "unknown_column =
     \<lparr>message = Some ''Could not find the 'anonymous_id' column of 'learning_sessions' in the schema cache'',
      code = Some ''PGRST204''\<rparr>"

definition legacy_client :: "store client" where
  "legacy_client =
     store_client\<lparr>insert_learning_sessions :=
       (\<lambda>p db. if anonymous_id p = None then store_insert_session p db
                else (Resolves None (Some unknown_column), db))\<rparr>"

text \<open>A store that refuses every query with an error, and one whose every query rejects.\<close>

definition permission_denied :: supabase_error where
  "permission_denied = \<lparr>message = Some ''permission denied'', code = Some ''42501''\<rparr>"

definition refusing_client :: "unit client" where
  "refusing_client =
     \<lparr>insert_learning_sessions = (\<lambda>p db. (Resolves None (Some permission_denied), db)),
      update_learning_sessions = (\<lambda>t i db. (Resolves None (Some permission_denied), db)),
      insert_question_attempts = (\<lambda>p db. (Resolves None (Some permission_denied), db)),
      update_question_attempts = (\<lambda>f i db. (Resolves None (Some permission_denied), db)),
      select_question_attempts = (\<lambda>i db. (Resolves None (Some permission_denied), db)),
      select_input_tracking = (\<lambda>a n db. (Resolves None (Some permission_denied), db)),
      update_input_tracking = (\<lambda>f i db. (Resolves None (Some permission_denied), db)),
      insert_input_tracking = (\<lambda>p db. (Resolves None (Some permission_denied), db))\<rparr>"

text \<open>The page as the script leaves it when it has loaded, and a browser to read from.\<close>

definition loaded_page :: "'db \<Rightarrow> 'db page" where
  "loaded_page db =
     \<lparr>currentSession = None, currentAttempts = empty_object, localStorage = Map.empty,
      database = db, issued = []\<rparr>"

definition browser :: env where
  "browser =
     \<lparr>href = ''https://example.org/quiz'', userAgent = ''Mozilla/5.0'',
      date_now = ''1700000000000'', random_suffix = ''k3j9x0q2z'',
      iso_now = ''2023-11-14T22:13:20.000Z''\<rparr>"

text \<open>A store whose every query rejects, as when the network is down.\<close>

definition rejecting_client :: "unit client" where
  "rejecting_client =
     \<lparr>insert_learning_sessions = (\<lambda>p db. (Rejects (Rejection ''Failed to fetch''), db)),
      update_learning_sessions = (\<lambda>t i db. (Rejects (Rejection ''Failed to fetch''), db)),
      insert_question_attempts = (\<lambda>p db. (Rejects (Rejection ''Failed to fetch''), db)),
      update_question_attempts = (\<lambda>f i db. (Rejects (Rejection ''Failed to fetch''), db)),
      select_question_attempts = (\<lambda>i db. (Rejects (Rejection ''Failed to fetch''), db)),
      select_input_tracking = (\<lambda>a n db. (Rejects (Rejection ''Failed to fetch''), db)),
      update_input_tracking = (\<lambda>f i db. (Rejects (Rejection ''Failed to fetch''), db)),
      insert_input_tracking = (\<lambda>p db. (Rejects (Rejection ''Failed to fetch''), db))\<rparr>"

text \<open>
  Pages further on in a visit: a session and a first attempt at \<^verbatim>\<open>q1\<close> as the store of
  this section creates them from \<open>loaded_page empty_store\<close>.
\<close>

definition session1 :: learning_session where
  "session1 =
     \<lparr>page_url = ''https://example.org/quiz'', user_agent = ''Mozilla/5.0'',
      anonymous_id = Some ''anon_1700000000000_k3j9x0q2z'', ls_id = 1, session_end = None\<rparr>"

definition attempt1 :: attempt_row where
  "attempt1 =
     \<lparr>session_id = 1, question_file = ''algebra.xml'', question_name = None,
      question_prefix = ''q1'', seed = None, attempt_number = 1,
      at_id = 2, submission = None\<rparr>"

definition started_page :: "'db \<Rightarrow> 'db page" where
  "started_page db =
     \<lparr>currentSession = Some session1, currentAttempts = empty_object,
      localStorage = [''anonymousUserId'' \<mapsto> ''anon_1700000000000_k3j9x0q2z''],
      database = db, issued = []\<rparr>"

definition answering_page :: "'db \<Rightarrow> 'db page" where
  "answering_page db =
     \<lparr>currentSession = Some session1,
      currentAttempts = \<lparr>own = [''q1'' \<mapsto> Some attempt1], proto = Object_prototype\<rparr>,
      localStorage = [''anonymousUserId'' \<mapsto> ''anon_1700000000000_k3j9x0q2z''],
      database = db, issued = []\<rparr>"

definition answering_store :: store where
  "answering_store =
     \<lparr>learning_sessions = [session1], question_attempts = [attempt1], input_tracking = [],
      next_id = 3\<rparr>"


text \<open>
  A store that counts the inserts into \<^verbatim>\<open>question_attempts\<close> it has seen, refuses the
  first of them and creates the row for each later one.
\<close>

definition flaky_client :: "nat client" where
  "flaky_client =
     \<lparr>insert_learning_sessions = (\<lambda>p n. (Resolves None (Some permission_denied), n)),
      update_learning_sessions = (\<lambda>t i n. (Resolves None (Some permission_denied), n)),
      insert_question_attempts =
        (\<lambda>p n. if n = 0 then (Resolves None (Some permission_denied), Suc n)
                else (case attempt_number p of
                        NaN \<Rightarrow> (Resolves None (Some not_null_violation), Suc n)
                      | Num k \<Rightarrow>
                          (Resolves
                             (Some \<lparr>session_id = session_id p, question_file = question_file p,
                                    question_name = question_name p,
                                    question_prefix = question_prefix p, seed = seed p,
                                    attempt_number = k, at_id = n, submission = None\<rparr>)
                             None,
                           Suc n))),
      update_question_attempts = (\<lambda>f i n. (Resolves None (Some permission_denied), n)),
      select_question_attempts = (\<lambda>i n. (Resolves None (Some permission_denied), n)),
      select_input_tracking = (\<lambda>a m n. (Resolves None (Some permission_denied), n)),
      update_input_tracking = (\<lambda>f i n. (Resolves None (Some permission_denied), n)),
      insert_input_tracking = (\<lambda>p n. (Resolves None (Some permission_denied), n))\<rparr>"

section \<open>Sequences of calls and what a store may be asked to respect\<close>

text \<open>One \<^verbatim>\<open>createQuestionAttempt\<close> call after the other, each for the same prefix.\<close>

fun createQuestionAttempts ::
  "'db client option \<Rightarrow> string \<Rightarrow> (string \<times> string option \<times> int option) list \<Rightarrow> 'db page
     \<Rightarrow> attempt_row option completion list \<times> 'db page" where
  "createQuestionAttempts supabase qprefix [] w = ([], w)"
| "createQuestionAttempts supabase qprefix ((qfile, qname, seed0) # calls) w =
     (case createQuestionAttempt supabase qfile qname qprefix seed0 w of
        (r, w1) \<Rightarrow>
          (case createQuestionAttempts supabase qprefix calls w1 of
             (rs, w2) \<Rightarrow> (r # rs, w2)))"

text \<open>The rows the calls returned, in order: one for each call that created its row.\<close>

fun created :: "'a option completion list \<Rightarrow> 'a list" where
  "created [] = []"
| "created (Returns (Some r) # rs) = r # created rs"
| "created (Returns None # rs) = created rs"
| "created (Throws x # rs) = created rs"

text \<open>What a request sends as attempt number, if it is an insert of an attempt.\<close>

fun number_sent :: "request \<Rightarrow> js_number option" where
  "number_sent (Insert_question_attempts p) = Some (attempt_number p)"
| "number_sent q = None"

text \<open>
  An insert into \<^verbatim>\<open>question_attempts\<close> that resolves without an error gives the created
  row, and the row has the attempt number that was sent. The identifier and every other
  column of the row are the store's to choose.
\<close>

definition returns_created_attempt :: "'db client \<Rightarrow> bool" where
  "returns_created_attempt B =
     (\<forall>p db. case fst (insert_question_attempts B p db) of
        Rejects x \<Rightarrow> True
      | Resolves data error \<Rightarrow>
          (case error of
             Some x \<Rightarrow> True
           | None \<Rightarrow>
               (case data of
                  None \<Rightarrow> False
                | Some r \<Rightarrow> Num (attempt_number r) = attempt_number p)))"

text \<open>The number \<^verbatim>\<open>createQuestionAttempt\<close> computes from the cache, lines 98 and 99.\<close>

definition next_attempt_number :: "'db page \<Rightarrow> string \<Rightarrow> js_number" where
  "next_attempt_number w qprefix =
     (case property_read (currentAttempts w) qprefix of
        Nothing \<Rightarrow> Num 1
      | Attempt a \<Rightarrow> Num (attempt_number a + 1)
      | Foreign \<Rightarrow> NaN)"

text \<open>
  What \<^verbatim>\<open>trackInput\<close> needs of the page and of the store of the previous section to
  record a final answer: a session, a cached attempt for the prefix that is in
  \<^verbatim>\<open>question_attempts\<close> once, and at most one final answer so far for the attempt and
  the input name.
\<close>

definition ready :: "store page \<Rightarrow> string \<Rightarrow> attempt_row \<Rightarrow> string \<Rightarrow> bool" where
  "ready w qprefix attempt inputName =
     (currentSession w \<noteq> None
      \<and> property_read (currentAttempts w) qprefix = Attempt attempt
      \<and> length (filter (\<lambda>r. at_id r = at_id attempt) (question_attempts (database w))) = 1
      \<and> input_keys_ok (database w)
      \<and> length (final_answers (at_id attempt) inputName (database w)) \<le> 1)"

text \<open>
  The ways \<^verbatim>\<open>initializeDatabaseSession\<close> fails at the store: the first insert rejects; or
  it resolves with an error that is not the missing column; or it resolves with the
  missing column and the insert sent again without \<^verbatim>\<open>anonymous_id\<close> rejects or resolves
  with an error.
\<close>

definition session_insert_fails :: "'db client \<Rightarrow> env \<Rightarrow> 'db page \<Rightarrow> bool" where
  "session_insert_fails B e w =
     (case insert_learning_sessions B
             \<lparr>page_url = href e, user_agent = userAgent e,
              anonymous_id = Some (fst (generateAnonymousId e (localStorage w)))\<rparr>
             (database w) of
        (Rejects x, d) \<Rightarrow> True
      | (Resolves data0 error0, d) \<Rightarrow>
          if missing_column error0
          then (case insert_learning_sessions B
                       \<lparr>page_url = href e, user_agent = userAgent e, anonymous_id = None\<rparr> d of
                  (Rejects x, d') \<Rightarrow> True
                | (Resolves data error, d') \<Rightarrow> error \<noteq> None)
          else error0 \<noteq> None)"

fun returned :: "'a completion \<Rightarrow> bool" where
  "returned (Returns v) = True"
| "returned (Throws x) = False"

section \<open>Properties\<close>

subsection \<open>The anonymous identifier is stable\<close>

text \<open>
  C10. For every local storage and every clock and random reading of the two calls, two
  consecutive calls of \<^verbatim>\<open>generateAnonymousId\<close> return the same token. A fresh token is
  stored under the key before it is returned; a stored token (a non-empty string under
  the key) is returned as it is and storage is left alone.
\<close>

theorem generateAnonymousId_stable:
  "fst (generateAnonymousId e2 (snd (generateAnonymousId e1 ls))) = fst (generateAnonymousId e1 ls)
   \<and> snd (generateAnonymousId e1 ls) ''anonymousUserId'' = Some (fst (generateAnonymousId e1 ls))
   \<and> (ls ''anonymousUserId'' = Some t \<and> t \<noteq> [] \<longrightarrow> generateAnonymousId e1 ls = (t, ls))"
  by (auto simp: generateAnonymousId_def Let_def split: option.splits)

theorem generateAnonymousId_stable_witness:
  "[''anonymousUserId'' \<mapsto> ''anon_7_x''] ''anonymousUserId'' = Some ''anon_7_x''
   \<and> generateAnonymousId browser [''anonymousUserId'' \<mapsto> ''anon_7_x'']
       = (''anon_7_x'', [''anonymousUserId'' \<mapsto> ''anon_7_x''])
   \<and> fst (generateAnonymousId (browser\<lparr>date_now := ''1700000000001''\<rparr>)
            (snd (generateAnonymousId browser Map.empty)))
       = fst (generateAnonymousId browser Map.empty)"
  using generateAnonymousId_stable
          [of browser browser "[''anonymousUserId'' \<mapsto> ''anon_7_x'']" "''anon_7_x''"]
        generateAnonymousId_stable
          [of "browser\<lparr>date_now := ''1700000000001''\<rparr>" browser Map.empty "[]"]
  by simp

subsection \<open>Reads and writes of currentAttempts\<close>

lemma property_read_write:
  "property_read (property_write obj p data) p
     = (case data of None \<Rightarrow> Nothing | Some r \<Rightarrow> Attempt r)"
  by (auto simp add: property_read_def property_write_def split: option.splits prototype.splits)

lemma property_read_empty_object:
  "property_read empty_object p = (if p \<in> set object_prototype_names then Foreign else Nothing)"
  by (simp add: property_read_def empty_object_def)

subsection \<open>Calls made too early\<close>

text \<open>
  Where the read \<^verbatim>\<open>currentAttempts[qprefix]\<close> gives nothing, the guards of lines 134 and
  177 return: null is returned, nothing is sent and the page is as it was.
\<close>

lemma trackInput_nothing_cached:
  "property_read (currentAttempts w) qprefix = Nothing \<Longrightarrow>
   trackInput supabase e qprefix inputName inputValue inputType isFinalAnswer validationResult w
     = (Returns None, w)"
  by (simp add: trackInput_def split: option.splits)

lemma updateQuestionAttempt_nothing_cached:
  "property_read (currentAttempts w) qprefix = Nothing \<Longrightarrow>
   updateQuestionAttempt supabase e qprefix score0 maxScore isCorrect w = (Returns None, w)"
  by (simp add: updateQuestionAttempt_def split: option.splits)


text \<open>
  C6, where the code departs from it. On a page with a session and nothing created yet,
  nothing is cached for the prefix \<^verbatim>\<open>constructor\<close>, but the guard of line 134 reads the
  inherited member and lets the call pass: \<^verbatim>\<open>updateQuestionAttempt\<close> sends an update of
  \<^verbatim>\<open>question_attempts\<close> filtered by an undefined identifier, and returns null when the
  store has refused it.
\<close>

theorem updateQuestionAttempt_inherited_prefix:
  "own (currentAttempts (started_page empty_store)) ''constructor'' = None
   \<and> property_read (currentAttempts (started_page empty_store)) ''constructor'' = Foreign
   \<and> updateQuestionAttempt (Some store_client) browser ''constructor'' (JNum 1) (JNum 1)
         (JBool True) (started_page empty_store)
       = (Returns None,
          (started_page empty_store)
            \<lparr>database := empty_store,
              issued :=
                [Update_question_attempts
                   \<lparr>submitted_at = ''2023-11-14T22:13:20.000Z'', score = JNum 1,
                    max_score = JNum 1, is_correct = JBool True\<rparr>
                   None]\<rparr>)"
  by (simp add: updateQuestionAttempt_def send_def catch_null_def property_read_def
        object_prototype_names_def empty_object_def started_page_def empty_store_def
        store_client_def store_update_attempt_def browser_def Let_def)

subsection \<open>What trackInput sends\<close>

text \<open>
  C5. With the store configured, a session and a cached attempt for the prefix, the first
  request \<^verbatim>\<open>trackInput\<close> sends is the select of the cached attempt's identifier on
  \<^verbatim>\<open>question_attempts\<close>; and if that select resolves with no row, \<^verbatim>\<open>trackInput\<close> returns
  null and that select is the only request it has sent.
\<close>

theorem trackInput_verifies_attempt:
  assumes "currentSession w = Some cs"
    and "property_read (currentAttempts w) qprefix = Attempt attempt"
  shows "take (Suc (length (issued w)))
           (issued (snd (trackInput (Some B) e qprefix inputName inputValue inputType
                           isFinalAnswer validationResult w)))
           = issued w @ [Select_question_attempts (Some (at_id attempt))]
         \<and> (select_question_attempts B (Some (at_id attempt)) (database w)
               = (Resolves None error, d)
              \<longrightarrow> trackInput (Some B) e qprefix inputName inputValue inputType
                     isFinalAnswer validationResult w
                   = (Returns None,
                      w\<lparr>database := d,
                        issued := issued w @ [Select_question_attempts (Some (at_id attempt))]\<rparr>))"
  using assms
  by (auto simp add: trackInput_def trackConsolidatedInput_def send_def catch_null_def Let_def
        split: option.splits prod.splits response.splits completion.splits)

theorem trackInput_verifies_attempt_witness:
  "currentSession (answering_page empty_store) = Some session1
   \<and> property_read (currentAttempts (answering_page empty_store)) ''q1'' = Attempt attempt1
   \<and> select_question_attempts store_client (Some (at_id attempt1))
         (database (answering_page empty_store))
       = (Resolves None None, empty_store)
   \<and> trackInput (Some store_client) browser ''q1'' ''ans1'' (JStr ''42'') (JStr ''text'') True JNull
         (answering_page empty_store)
       = (Returns None,
          (answering_page empty_store)
            \<lparr>database := empty_store, issued := [Select_question_attempts (Some 2)]\<rparr>)"
proof -
  have h1: "currentSession (answering_page empty_store) = Some session1"
    and h2: "property_read (currentAttempts (answering_page empty_store)) ''q1'' = Attempt attempt1"
    by (simp_all add: answering_page_def property_read_def)
  have h3: "select_question_attempts store_client (Some (at_id attempt1))
              (database (answering_page empty_store)) = (Resolves None None, empty_store)"
    by (simp add: store_client_def store_select_attempt_def maybeSingle_def empty_store_def
          answering_page_def)
  have i: "issued (answering_page empty_store) = []" and a: "at_id attempt1 = 2"
    by (simp_all add: answering_page_def attempt1_def)
  show ?thesis
    using h1 h2 h3
      trackInput_verifies_attempt [OF h1 h2, where B = store_client and error = None
        and d = empty_store and e = browser and inputName = "''ans1''"
        and inputValue = "JStr ''42''" and inputType = "JStr ''text''"
        and isFinalAnswer = True and validationResult = JNull]
    by (simp add: i a)
qed

text \<open>
  C9. With the store configured, a session and a cached attempt for the prefix, a call of
  \<^verbatim>\<open>trackInput\<close> with \<^verbatim>\<open>isFinalAnswer\<close> false returns null and sends the store the select of
  the attempt and nothing else: no insert, no update, and none of the requests of
  \<^verbatim>\<open>trackConsolidatedInput\<close>.
\<close>

theorem trackInput_not_final:
  assumes "currentSession w = Some cs"
    and "property_read (currentAttempts w) qprefix = Attempt attempt"
  shows "trackInput (Some B) e qprefix inputName inputValue inputType False validationResult w
           = (Returns None,
              w\<lparr>database := snd (select_question_attempts B (Some (at_id attempt)) (database w)),
                issued := issued w @ [Select_question_attempts (Some (at_id attempt))]\<rparr>)
         \<and> filter is_write
               (issued (snd (trackInput (Some B) e qprefix inputName inputValue inputType False
                               validationResult w)))
             = filter is_write (issued w)"
  using assms
  by (simp add: trackInput_def send_def catch_null_def
        split: option.splits prod.splits response.splits)

theorem trackInput_not_final_witness:
  "currentSession (answering_page answering_store) = Some session1
   \<and> property_read (currentAttempts (answering_page answering_store)) ''q1'' = Attempt attempt1
   \<and> trackInput (Some store_client) browser ''q1'' ''ans1'' (JStr ''4'') (JStr ''text'') False JNull
         (answering_page answering_store)
       = (Returns None,
          (answering_page answering_store)
            \<lparr>database := answering_store, issued := [Select_question_attempts (Some 2)]\<rparr>)"
proof -
  have h1: "currentSession (answering_page answering_store) = Some session1"
    and h2: "property_read (currentAttempts (answering_page answering_store)) ''q1''
               = Attempt attempt1"
    by (simp_all add: answering_page_def property_read_def)
  have s: "snd (select_question_attempts store_client i
                  (database (answering_page answering_store))) = answering_store" for i
    by (simp add: store_client_def store_select_attempt_def answering_page_def)
  have i: "issued (answering_page answering_store) = []" and a: "at_id attempt1 = 2"
    by (simp_all add: answering_page_def attempt1_def)
  show ?thesis
    using h1 h2
      trackInput_not_final [OF h1 h2, where B = store_client and e = browser
        and inputName = "''ans1''" and inputValue = "JStr ''4''"
        and inputType = "JStr ''text''" and validationResult = JNull]
    by (simp add: s i a)
qed

subsection \<open>The fallback of initializeDatabaseSession\<close>

text \<open>
  C3. With the store configured: if the first insert of \<^verbatim>\<open>initializeDatabaseSession\<close>
  resolves with an error whose code is 42703 or whose message matches
  \<^verbatim>\<open>/anonymous_id/i\<close>, the call sends exactly two requests, the first insert and one more
  insert into \<^verbatim>\<open>learning_sessions\<close> with the same address and user agent and no
  \<^verbatim>\<open>anonymous_id\<close>; and if that second insert resolves with a row and no error, the call
  returns the row and \<^verbatim>\<open>currentSession\<close> holds it.
\<close>

theorem initializeDatabaseSession_fallback:
  assumes "insert_learning_sessions B
             \<lparr>page_url = href e, user_agent = userAgent e,
              anonymous_id = Some (fst (generateAnonymousId e (localStorage w)))\<rparr> (database w)
           = (Resolves data0 (Some error0), db1)"
    and "code error0 = Some ''42703''
         \<or> matches_anonymous_id (case message error0 of None \<Rightarrow> [] | Some m \<Rightarrow> m)"
  shows "issued (snd (initializeDatabaseSession (Some B) e w)) =
           issued w @
           [Insert_learning_sessions
              \<lparr>page_url = href e, user_agent = userAgent e,
               anonymous_id = Some (fst (generateAnonymousId e (localStorage w)))\<rparr>,
            Insert_learning_sessions
              \<lparr>page_url = href e, user_agent = userAgent e, anonymous_id = None\<rparr>]
         \<and> (insert_learning_sessions B
               \<lparr>page_url = href e, user_agent = userAgent e, anonymous_id = None\<rparr> db1
               = (Resolves (Some r) None, db2)
             \<longrightarrow> fst (initializeDatabaseSession (Some B) e w) = Returns (Some r)
                 \<and> currentSession (snd (initializeDatabaseSession (Some B) e w)) = Some r)"
  using assms
  by (auto simp add: initializeDatabaseSession_def send_def catch_null_def Let_def
        missing_column_def
        split: option.splits prod.splits response.splits completion.splits)

theorem initializeDatabaseSession_fallback_witness:
  "insert_learning_sessions legacy_client
     \<lparr>page_url = href browser, user_agent = userAgent browser,
      anonymous_id = Some (fst (generateAnonymousId browser (localStorage (loaded_page empty_store))))\<rparr>
     (database (loaded_page empty_store))
     = (Resolves None (Some unknown_column), empty_store)
   \<and> code unknown_column = Some ''PGRST204''
   \<and> matches_anonymous_id (case message unknown_column of None \<Rightarrow> [] | Some m \<Rightarrow> m)
   \<and> issued (snd (initializeDatabaseSession (Some legacy_client) browser (loaded_page empty_store)))
       = [Insert_learning_sessions
            \<lparr>page_url = ''https://example.org/quiz'', user_agent = ''Mozilla/5.0'',
             anonymous_id = Some ''anon_1700000000000_k3j9x0q2z''\<rparr>,
          Insert_learning_sessions
            \<lparr>page_url = ''https://example.org/quiz'', user_agent = ''Mozilla/5.0'',
             anonymous_id = None\<rparr>]
   \<and> fst (initializeDatabaseSession (Some legacy_client) browser (loaded_page empty_store))
       = Returns (Some (session1\<lparr>anonymous_id := None\<rparr>))
   \<and> currentSession (snd (initializeDatabaseSession (Some legacy_client) browser
                             (loaded_page empty_store)))
       = Some (session1\<lparr>anonymous_id := None\<rparr>)"
proof -
  let ?full = "\<lparr>page_url = href browser, user_agent = userAgent browser,
      anonymous_id = Some (fst (generateAnonymousId browser (localStorage (loaded_page empty_store))))\<rparr>"
  let ?fallback = "\<lparr>page_url = href browser, user_agent = userAgent browser, anonymous_id = None\<rparr>"
  let ?db2 = "empty_store\<lparr>learning_sessions := [session1\<lparr>anonymous_id := None\<rparr>], next_id := 2\<rparr>"
  have h1: "insert_learning_sessions legacy_client ?full (database (loaded_page empty_store))
              = (Resolves None (Some unknown_column), empty_store)"
    by (simp add: legacy_client_def loaded_page_def)
  have m: "matches_anonymous_id (case message unknown_column of None \<Rightarrow> [] | Some m \<Rightarrow> m)"
    by (simp add: unknown_column_def matches_anonymous_id_def lower_ascii_def)
  then have h2: "code unknown_column = Some ''42703''
         \<or> matches_anonymous_id (case message unknown_column of None \<Rightarrow> [] | Some m \<Rightarrow> m)"
    by simp
  have h3: "insert_learning_sessions legacy_client ?fallback empty_store
              = (Resolves (Some (session1\<lparr>anonymous_id := None\<rparr>)) None, ?db2)"
    by (simp add: legacy_client_def store_insert_session_def empty_store_def session1_def
          browser_def Let_def eval_nat_numeral)
  have c: "code unknown_column = Some ''PGRST204''"
    by (simp add: unknown_column_def)
  have f: "?full = \<lparr>page_url = ''https://example.org/quiz'', user_agent = ''Mozilla/5.0'',
             anonymous_id = Some ''anon_1700000000000_k3j9x0q2z''\<rparr>"
    and g: "?fallback = \<lparr>page_url = ''https://example.org/quiz'', user_agent = ''Mozilla/5.0'',
             anonymous_id = None\<rparr>"
    and i: "issued (loaded_page empty_store) = []"
    by (simp_all add: browser_def loaded_page_def generateAnonymousId_def Let_def)
  show ?thesis
    using initializeDatabaseSession_fallback [OF h1 h2, where r = "session1\<lparr>anonymous_id := None\<rparr>"
            and ?db2.0 = ?db2] h1 h3 m c
    unfolding f g i by simp
qed

subsection \<open>A failed initializeDatabaseSession\<close>

text \<open>
  C8, as the code has it. Whenever \<^verbatim>\<open>initializeDatabaseSession\<close> fails at the store (the
  insert, and the insert sent again if there is one, resolve with an error, or one of
  them rejects), it returns null and \<^verbatim>\<open>currentSession\<close> is what it was before the call:
  no session if the page held none, the session of an earlier call if it held one.
\<close>

theorem initializeDatabaseSession_failure:
  assumes "session_insert_fails B e w"
  shows "fst (initializeDatabaseSession (Some B) e w) = Returns None
         \<and> currentSession (snd (initializeDatabaseSession (Some B) e w)) = currentSession w"
proof -
  obtain anonymousId ls where g: "generateAnonymousId e (localStorage w) = (anonymousId, ls)"
    by (cases "generateAnonymousId e (localStorage w)")
  let ?full = "\<lparr>page_url = href e, user_agent = userAgent e, anonymous_id = Some anonymousId\<rparr>"
  let ?fallback = "\<lparr>page_url = href e, user_agent = userAgent e, anonymous_id = None\<rparr>"
  obtain r1 d1 where first: "insert_learning_sessions B ?full (database w) = (r1, d1)"
    by (cases "insert_learning_sessions B ?full (database w)")
  obtain r2 d2 where second: "insert_learning_sessions B ?fallback d1 = (r2, d2)"
    by (cases "insert_learning_sessions B ?fallback d1")
  show ?thesis
  proof (cases r1)
    case (Rejects x)
    then show ?thesis
      using g first by (simp add: initializeDatabaseSession_def send_def catch_null_def Let_def)
  next
    case (Resolves data0 error0)
    show ?thesis
    proof (cases "missing_column error0")
      case False
      have "error0 \<noteq> None"
        using assms g first Resolves False by (simp add: session_insert_fails_def)
      then obtain x where "error0 = Some x" by auto
      then show ?thesis
        using g first Resolves False
        by (simp add: initializeDatabaseSession_def send_def catch_null_def Let_def)
    next
      case True
      show ?thesis
      proof (cases r2)
        case (Rejects x)
        then show ?thesis
          using g first second Resolves True
          by (simp add: initializeDatabaseSession_def send_def catch_null_def Let_def)
      next
        case inner: (Resolves data error)
        have "error \<noteq> None"
          using assms g first second Resolves True inner
          by (simp add: session_insert_fails_def)
        then obtain x where "error = Some x" by auto
        then show ?thesis
          using g first second Resolves True inner
          by (simp add: initializeDatabaseSession_def send_def catch_null_def Let_def)
      qed
    qed
  qed
qed

theorem initializeDatabaseSession_failure_witness:
  "session_insert_fails rejecting_client browser (started_page ())
   \<and> fst (initializeDatabaseSession (Some rejecting_client) browser (started_page ()))
       = Returns None
   \<and> currentSession (snd (initializeDatabaseSession (Some rejecting_client) browser
                             (started_page ())))
       = Some session1
   \<and> session_insert_fails refusing_client browser (loaded_page ())
   \<and> fst (initializeDatabaseSession (Some refusing_client) browser (loaded_page ()))
       = Returns None
   \<and> currentSession (snd (initializeDatabaseSession (Some refusing_client) browser
                             (loaded_page ())))
       = None"
proof -
  have h1: "session_insert_fails rejecting_client browser (started_page ())"
    by (simp add: session_insert_fails_def rejecting_client_def)
  have h2: "session_insert_fails refusing_client browser (loaded_page ())"
    by (simp add: session_insert_fails_def refusing_client_def missing_column_def
          permission_denied_def matches_anonymous_id_def lower_ascii_def)
  have s: "currentSession (started_page ()) = Some session1"
    and l: "currentSession (loaded_page ()) = None"
    by (simp_all add: started_page_def loaded_page_def)
  show ?thesis
    using h1 h2 initializeDatabaseSession_failure [OF h1] initializeDatabaseSession_failure [OF h2]
    by (simp add: s l)
qed

text \<open>
  The claim as it was stated fails on a page that already holds a session: the store
  refuses the insert, the call returns null, and \<^verbatim>\<open>currentSession\<close> still holds the
  session.
\<close>

theorem initializeDatabaseSession_failure_keeps_session:
  "fst (initializeDatabaseSession (Some refusing_client) browser (started_page ())) = Returns None
   \<and> currentSession (snd (initializeDatabaseSession (Some refusing_client) browser (started_page ())))
       = Some session1
   \<and> currentSession (snd (initializeDatabaseSession (Some refusing_client) browser (started_page ())))
       \<noteq> None"
  by (simp add: initializeDatabaseSession_def refusing_client_def send_def catch_null_def
        missing_column_def permission_denied_def matches_anonymous_id_def lower_ascii_def
        generateAnonymousId_def started_page_def Let_def)

subsection \<open>No exception reaches the host page from the store\<close>

text \<open>
  C7, as the code has it. For every argument, every page and every client, however its
  queries fail or reject, the five operations that talk to the store return: the three
  that create or update a row return the row or null, \<^verbatim>\<open>trackInput\<close> returns the row or
  null, \<^verbatim>\<open>endDatabaseSession\<close> returns nothing. \<^verbatim>\<open>getInputDetails\<close> returns its pair of type
  and value for an element that has a tag name.
\<close>

theorem store_operations_never_throw:
  "returned (fst (initializeDatabaseSession supabase e w))
   \<and> returned (fst (createQuestionAttempt supabase qfile qname qprefix seed0 w))
   \<and> returned (fst (updateQuestionAttempt supabase e qprefix score0 maxScore isCorrect w))
   \<and> returned (fst (trackInput supabase e qprefix inputName inputValue inputType isFinalAnswer
                      validationResult w))
   \<and> returned (fst (endDatabaseSession supabase e w))
   \<and> returned (getInputDetails (Some (el\<lparr>tagName := Some n\<rparr>)))"
proof (intro conjI)
  show "returned (fst (initializeDatabaseSession supabase e w))"
    by (auto simp add: initializeDatabaseSession_def send_def catch_null_def Let_def
          split: option.splits prod.splits response.splits completion.splits if_splits)
  show "returned (fst (createQuestionAttempt supabase qfile qname qprefix seed0 w))"
    by (auto simp add: createQuestionAttempt_def send_def catch_null_def Let_def
          split: option.splits prod.splits response.splits completion.splits)
  show "returned (fst (updateQuestionAttempt supabase e qprefix score0 maxScore isCorrect w))"
    by (auto simp add: updateQuestionAttempt_def send_def catch_null_def Let_def
          split: option.splits prod.splits response.splits completion.splits)
  show "returned (fst (trackInput supabase e qprefix inputName inputValue inputType isFinalAnswer
                         validationResult w))"
    by (auto simp add: trackInput_def catch_null_def
          split: option.splits prod.splits response.splits completion.splits)
  show "returned (fst (endDatabaseSession supabase e w))"
    by (auto simp add: endDatabaseSession_def send_def
          split: option.splits prod.splits response.splits completion.splits)
  show "returned (getInputDetails (Some (el\<lparr>tagName := Some n\<rparr>)))"
    by (auto simp add: getInputDetails_def split: option.splits completion.splits)
qed

theorem store_operations_never_throw_witness:
  "fst (initializeDatabaseSession (Some rejecting_client) browser (answering_page ())) = Returns None
   \<and> fst (createQuestionAttempt (Some rejecting_client) ''algebra.xml'' None ''q1'' None
            (answering_page ())) = Returns None
   \<and> fst (updateQuestionAttempt (Some rejecting_client) browser ''q1'' (JNum 1) (JNum 1)
            (JBool True) (answering_page ())) = Returns None
   \<and> fst (trackInput (Some rejecting_client) browser ''q1'' ''ans1'' (JStr ''42'') (JStr ''text'')
            True JNull (answering_page ())) = Returns None
   \<and> returned (fst (endDatabaseSession (Some rejecting_client) browser (answering_page ())))
   \<and> getInputDetails
        (Some \<lparr>el_type = None, tagName = Some ''TEXTAREA'', el_value = Some ''x + 1'',
               checked = False\<rparr>)
       = Returns (''textarea'', Some ''x + 1'')"
proof -
  have "fst (initializeDatabaseSession (Some rejecting_client) browser (answering_page ()))
          = Returns None"
    by (simp add: initializeDatabaseSession_def rejecting_client_def send_def catch_null_def
          generateAnonymousId_def answering_page_def Let_def)
  moreover have "fst (createQuestionAttempt (Some rejecting_client) ''algebra.xml'' None ''q1'' None
            (answering_page ())) = Returns None"
    by (simp add: createQuestionAttempt_def rejecting_client_def send_def catch_null_def
          answering_page_def property_read_def Let_def)
  moreover have "fst (updateQuestionAttempt (Some rejecting_client) browser ''q1'' (JNum 1) (JNum 1)
            (JBool True) (answering_page ())) = Returns None"
    by (simp add: updateQuestionAttempt_def rejecting_client_def send_def catch_null_def
          answering_page_def property_read_def Let_def)
  moreover have "fst (trackInput (Some rejecting_client) browser ''q1'' ''ans1'' (JStr ''42'')
            (JStr ''text'') True JNull (answering_page ())) = Returns None"
    by (simp add: trackInput_def rejecting_client_def send_def catch_null_def
          answering_page_def property_read_def Let_def)
  moreover have "getInputDetails
        (Some \<lparr>el_type = None, tagName = Some ''TEXTAREA'', el_value = Some ''x + 1'',
               checked = False\<rparr>)
       = Returns (''textarea'', Some ''x + 1'')"
    by (simp add: getInputDetails_def lower_ascii_def)
  ultimately show ?thesis
    using store_operations_never_throw [of "Some rejecting_client" browser "answering_page ()"]
    by simp
qed

text \<open>
  The claim as it was stated fails at \<^verbatim>\<open>getInputDetails\<close>, which has no \<^verbatim>\<open>try\<close>: on null
  it throws at the read of \<^verbatim>\<open>inputElement.type\<close>, and on an object with neither a type nor
  a tag name at \<^verbatim>\<open>toLowerCase\<close>.
\<close>

theorem getInputDetails_throws:
  "getInputDetails None = Throws TypeError
   \<and> getInputDetails
        (Some \<lparr>el_type = None, tagName = None, el_value = Some ''1'', checked = False\<rparr>)
       = Throws TypeError
   \<and> \<not> returned (getInputDetails None)"
  by (simp add: getInputDetails_def)

subsection \<open>Attempt numbers\<close>

lemma createQuestionAttempt_sends:
  assumes "currentSession w = Some cs"
  shows "\<exists>q. issued (snd (createQuestionAttempt (Some B) qfile qname qprefix seed0 w)) = issued w @ [q]
             \<and> number_sent q = Some (next_attempt_number w qprefix)"
    and "currentSession (snd (createQuestionAttempt (Some B) qfile qname qprefix seed0 w)) = Some cs"
  using assms
  by (auto simp add: createQuestionAttempt_def send_def catch_null_def Let_def
        next_attempt_number_def
        split: prod.splits response.splits option.splits)

lemma createQuestionAttempt_step:
  assumes B: "returns_created_attempt B"
  shows "(case fst (createQuestionAttempt (Some B) qfile qname qprefix seed0 w) of
            Returns (Some r) \<Rightarrow>
              Num (attempt_number r) = next_attempt_number w qprefix
              \<and> next_attempt_number
                    (snd (createQuestionAttempt (Some B) qfile qname qprefix seed0 w)) qprefix
                  = Num (attempt_number r + 1)
          | _ \<Rightarrow>
              next_attempt_number
                  (snd (createQuestionAttempt (Some B) qfile qname qprefix seed0 w)) qprefix
                = next_attempt_number w qprefix)"
proof (cases "currentSession w")
  case None
  then show ?thesis by (simp add: createQuestionAttempt_def)
next
  case (Some cs)
  define row where "row =
     \<lparr>session_id = ls_id cs, question_file = qfile,
      question_name = (case qname of None \<Rightarrow> None | Some n \<Rightarrow> if n = [] then None else Some n),
      question_prefix = qprefix,
      seed = (case seed0 of None \<Rightarrow> None | Some k \<Rightarrow> if k = 0 then None else Some k),
      attempt_number = next_attempt_number w qprefix\<rparr>"
  have num: "attempt_number row = next_attempt_number w qprefix"
    by (simp add: row_def)
  from B have answer:
    "case fst (insert_question_attempts B row (database w)) of
        Rejects x \<Rightarrow> True
      | Resolves data error \<Rightarrow>
          (case error of
             Some x \<Rightarrow> True
           | None \<Rightarrow>
               (case data of
                  None \<Rightarrow> False
                | Some r \<Rightarrow> Num (attempt_number r) = attempt_number row))"
    unfolding returns_created_attempt_def by blast
  obtain res d where ins: "insert_question_attempts B row (database w) = (res, d)"
    by (cases "insert_question_attempts B row (database w)")
  have body: "createQuestionAttempt (Some B) qfile qname qprefix seed0 w =
     catch_null
       (case send (Insert_question_attempts row) (insert_question_attempts B row) w of
          (Rejects x, w1) \<Rightarrow> (Throws x, w1)
        | (Resolves data error, w1) \<Rightarrow>
            (case error of
               Some x \<Rightarrow> (Returns None, w1)
             | None \<Rightarrow>
                 (let w2 = w1\<lparr>currentAttempts :=
                               property_write (currentAttempts w1) qprefix data\<rparr>
                  in case data of
                       None \<Rightarrow> (Throws TypeError, w2)
                     | Some r \<Rightarrow> (Returns (Some r), w2))))"
    using Some by (simp add: createQuestionAttempt_def row_def next_attempt_number_def Let_def)
  have same: "next_attempt_number (w\<lparr>database := d', issued := i'\<rparr>) qprefix
                = next_attempt_number w qprefix" for d' i'
    by (simp add: next_attempt_number_def)
  show ?thesis
  proof (cases res)
    case (Rejects x)
    then show ?thesis
      unfolding body using ins same by (simp add: send_def catch_null_def)
  next
    case (Resolves data error)
    show ?thesis
    proof (cases error)
      case (Some x)
      then show ?thesis
        unfolding body using ins Resolves same by (simp add: send_def catch_null_def)
    next
      case None
      then obtain r where r: "data = Some r" and nr: "Num (attempt_number r) = attempt_number row"
        using answer ins Resolves by (cases data) simp_all
      show ?thesis
        unfolding body using ins Resolves None r nr num
        by (simp add: send_def catch_null_def Let_def next_attempt_number_def
              property_read_write)
    qed
  qed
qed


lemma createQuestionAttempts_sent:
  assumes B: "returns_created_attempt B"
  shows "currentSession w = Some cs \<Longrightarrow> next_attempt_number w qprefix = Num (k + 1) \<Longrightarrow>
     (\<exists>ys. issued (snd (createQuestionAttempts (Some B) qprefix calls w)) = issued w @ ys
           \<and> map number_sent ys
               = map (\<lambda>i. Some (Num (k + 1 + int (length (created
                        (take i (fst (createQuestionAttempts (Some B) qprefix calls w))))))))
                   [0..<length calls])
     \<and> map attempt_number (created (fst (createQuestionAttempts (Some B) qprefix calls w)))
         = map (\<lambda>i. k + 1 + int i)
             [0..<length (created (fst (createQuestionAttempts (Some B) qprefix calls w)))]
     \<and> length (fst (createQuestionAttempts (Some B) qprefix calls w)) = length calls"
proof (induction calls arbitrary: w k)
  case Nil
  then show ?case by simp
next
  case (Cons c calls)
  obtain qfile qname seed0 where c: "c = (qfile, qname, seed0)"
    by (cases c)
  obtain r w1 where one: "createQuestionAttempt (Some B) qfile qname qprefix seed0 w = (r, w1)"
    by (cases "createQuestionAttempt (Some B) qfile qname qprefix seed0 w")
  obtain rs w2 where rest: "createQuestionAttempts (Some B) qprefix calls w1 = (rs, w2)"
    by (cases "createQuestionAttempts (Some B) qprefix calls w1")
  have run: "createQuestionAttempts (Some B) qprefix (c # calls) w = (r # rs, w2)"
    using c one rest by simp
  obtain q where q: "issued w1 = issued w @ [q]" and nq: "number_sent q = Some (Num (k + 1))"
    using createQuestionAttempt_sends(1) [OF Cons.prems(1), of B qfile qname qprefix seed0]
      one Cons.prems(2) by auto
  have cs1: "currentSession w1 = Some cs"
    using createQuestionAttempt_sends(2) [OF Cons.prems(1), of B qfile qname qprefix seed0] one
    by simp
  have step: "(case r of
            Returns (Some a) \<Rightarrow>
              Num (attempt_number a) = next_attempt_number w qprefix
              \<and> next_attempt_number w1 qprefix = Num (attempt_number a + 1)
          | _ \<Rightarrow> next_attempt_number w1 qprefix = next_attempt_number w qprefix)"
    using createQuestionAttempt_step [OF B, of qfile qname qprefix seed0 w] unfolding one
    by (simp split: completion.splits option.splits)
  define k' where "k' = (case r of Returns (Some a) \<Rightarrow> k + 1 | _ \<Rightarrow> k)"
  have next1: "next_attempt_number w1 qprefix = Num (k' + 1)"
    using step Cons.prems(2) by (auto simp: k'_def split: completion.splits option.splits)
  obtain ys where ys: "issued w2 = issued w1 @ ys"
    and sent: "map number_sent ys
                 = map (\<lambda>i. Some (Num (k' + 1 + int (length (created (take i rs))))))
                     [0..<length calls]"
    and rows: "map attempt_number (created rs)
                 = map (\<lambda>i. k' + 1 + int i) [0..<length (created rs)]"
    and len: "length rs = length calls"
    using Cons.IH [OF cs1 next1] rest by auto
  have count: "k + 1 + int (length (created (r # xs))) = k' + 1 + int (length (created xs))" for xs
  proof (cases r)
    case (Throws x)
    then show ?thesis by (simp add: k'_def)
  next
    case (Returns v)
    then show ?thesis by (cases v) (simp_all add: k'_def)
  qed
  have first_row: "map attempt_number (created (r # rs))
                     = map (\<lambda>i. k + 1 + int i) [0..<length (created (r # rs))]"
  proof (cases "\<exists>a. r = Returns (Some a)")
    case True
    then obtain a where a: "r = Returns (Some a)" by auto
    then have "attempt_number a = k + 1" and "k' = k + 1"
      using step Cons.prems(2) by (simp_all add: k'_def)
    then show ?thesis
      using a rows by (simp add: map_upt_Suc del: upt_Suc)
  next
    case False
    have "created (r # rs) = created rs \<and> k' = k"
    proof (cases r)
      case (Throws x)
      then show ?thesis by (simp add: k'_def)
    next
      case (Returns v)
      then show ?thesis using False by (cases v) (simp_all add: k'_def)
    qed
    then show ?thesis using rows by simp
  qed
  have "map number_sent (q # ys)
          = map (\<lambda>i. Some (Num (k + 1 + int (length (created (take i (r # rs)))))))
              [0..<length (c # calls)]"
    using nq sent count by (simp add: map_upt_Suc del: upt_Suc)
  moreover have "issued w2 = issued w @ (q # ys)"
    using q ys by simp
  ultimately show ?case
    unfolding run using first_row len by (intro conjI exI [of _ "q # ys"]) simp_all
qed

text \<open>
  Where the read gives an inherited member, line 99 adds 1 to an undefined
  \<^verbatim>\<open>attempt_number\<close>: the first call for the prefix \<^verbatim>\<open>constructor\<close> sends \<^verbatim>\<open>NaN\<close>.
\<close>

lemma createQuestionAttempt_inherited_prefix:
  "map number_sent
     (issued (snd (createQuestionAttempt (Some store_client) ''algebra.xml'' None
                     ''constructor'' None (started_page empty_store))))
     = [Some NaN]"
  by (simp add: createQuestionAttempt_def store_client_def store_insert_attempt_def send_def
        catch_null_def started_page_def empty_object_def property_read_def
        object_prototype_names_def Let_def)

lemma store_client_returns_created_attempt: "returns_created_attempt store_client"
  by (simp add: returns_created_attempt_def store_client_def store_insert_attempt_def Let_def
        split: js_number.splits)

text \<open>
  C2, as the code has it. Take a page with a session on which the read of the prefix
  gives nothing, and any client whose insert into \<^verbatim>\<open>question_attempts\<close>, when it resolves
  without an error, gives the created row with the attempt number that was sent. Any
  sequence of \<^verbatim>\<open>createQuestionAttempt\<close> calls for that prefix sends one insert for each
  call and nothing else, and the number sent by each call is 1 plus the number of
  earlier calls of the sequence that created their row: the counter is the cached row's
  number plus one, whatever identifiers the store gave, and a call that created no row
  leaves it where it was. The rows the calls return carry 1, 2, 3 and so on in the order
  of the calls; when every call creates its row, call k sends k.
\<close>

theorem createQuestionAttempt_numbers:
  assumes "returns_created_attempt B"
    and "currentSession w = Some cs"
    and "property_read (currentAttempts w) qprefix = Nothing"
  shows "take (length (issued w))
           (issued (snd (createQuestionAttempts (Some B) qprefix calls w))) = issued w
         \<and> map number_sent
               (drop (length (issued w))
                  (issued (snd (createQuestionAttempts (Some B) qprefix calls w))))
             = map (\<lambda>i. Some (Num (1 + int (length (created
                      (take i (fst (createQuestionAttempts (Some B) qprefix calls w))))))))
                 [0..<length calls]
         \<and> map attempt_number (created (fst (createQuestionAttempts (Some B) qprefix calls w)))
             = map int
                 [1..<Suc (length (created (fst (createQuestionAttempts (Some B) qprefix calls w))))]"
proof -
  have start: "next_attempt_number w qprefix = Num (0 + 1)"
    using assms(3) by (simp add: next_attempt_number_def)
  have shift: "map (\<lambda>i. 1 + int i) [0..<n] = map int [1..<Suc n]" for n
    by (induction n) simp_all
  obtain ys where "issued (snd (createQuestionAttempts (Some B) qprefix calls w)) = issued w @ ys"
    and "map number_sent ys
           = map (\<lambda>i. Some (Num (0 + 1 + int (length (created
                    (take i (fst (createQuestionAttempts (Some B) qprefix calls w))))))))
               [0..<length calls]"
    and "map attempt_number (created (fst (createQuestionAttempts (Some B) qprefix calls w)))
           = map (\<lambda>i. 0 + 1 + int i)
               [0..<length (created (fst (createQuestionAttempts (Some B) qprefix calls w)))]"
    using createQuestionAttempts_sent [OF assms(1) assms(2) start, of calls] by auto
  then show ?thesis
    by (simp add: shift)
qed

theorem createQuestionAttempt_numbers_witness:
  "returns_created_attempt store_client
   \<and> currentSession (started_page empty_store) = Some session1
   \<and> property_read (currentAttempts (started_page empty_store)) ''q1'' = Nothing
   \<and> map number_sent
         (issued (snd (createQuestionAttempts (Some store_client) ''q1''
            [(''algebra.xml'', None, None), (''algebra.xml'', Some ''Roots'', Some 7),
             (''algebra.xml'', None, Some 0)]
            (started_page empty_store))))
       = [Some (Num 1), Some (Num 2), Some (Num 3)]
   \<and> map attempt_number
         (question_attempts (database (snd (createQuestionAttempts (Some store_client) ''q1''
            [(''algebra.xml'', None, None), (''algebra.xml'', Some ''Roots'', Some 7),
             (''algebra.xml'', None, Some 0)]
            (started_page empty_store)))))
       = [1, 2, 3]
   \<and> map attempt_number
        (created (fst (createQuestionAttempts (Some store_client) ''q1''
           [(''algebra.xml'', None, None), (''algebra.xml'', Some ''Roots'', Some 7),
            (''algebra.xml'', None, Some 0)]
           (started_page empty_store))))
       = [1, 2, 3]"
proof -
  let ?calls = "[(''algebra.xml'', None, None), (''algebra.xml'', Some ''Roots'', Some 7),
            (''algebra.xml'', None, Some 0)]"
  have h1: "currentSession (started_page empty_store) = Some session1"
    by (simp add: started_page_def)
  have h2: "property_read (currentAttempts (started_page empty_store)) ''q1'' = Nothing"
    by (simp add: started_page_def property_read_empty_object object_prototype_names_def)
  have i: "issued (started_page empty_store) = []"
    by (simp add: started_page_def)
  have three: "length (created (fst (createQuestionAttempts (Some store_client) ''q1'' ?calls
                 (started_page empty_store)))) = 3"
    and stored: "map attempt_number
         (question_attempts (database (snd (createQuestionAttempts (Some store_client) ''q1''
            ?calls (started_page empty_store))))) = [1, 2, 3]"
    by (simp_all add: createQuestionAttempt_def store_client_def store_insert_attempt_def
          send_def catch_null_def started_page_def empty_store_def empty_object_def
          property_read_def property_write_def object_prototype_names_def Let_def)
  have upto: "map int [1..<Suc 3] = [1, 2, 3]"
    by (simp add: upt_rec)
  have sent: "map (\<lambda>i. Some (Num (1 + int (length (created
                      (take i (fst (createQuestionAttempts (Some store_client) ''q1'' ?calls
                         (started_page empty_store))))))))) [0..<length ?calls]
                = [Some (Num 1), Some (Num 2), Some (Num 3)]"
    by (simp add: createQuestionAttempt_def store_client_def store_insert_attempt_def
          send_def catch_null_def started_page_def empty_store_def empty_object_def
          property_read_def property_write_def object_prototype_names_def Let_def upt_rec)
  show ?thesis
    using createQuestionAttempt_numbers
            [OF store_client_returns_created_attempt h1 h2, of ?calls]
      store_client_returns_created_attempt h1 h2 stored
    unfolding three upto sent i by simp
qed

text \<open>
  The claim as it was stated fails when a call creates no row: the store refuses the
  first insert, and the three calls send 1, 1, 2.
\<close>

theorem createQuestionAttempt_numbers_repeat:
  "map number_sent
     (issued (snd (createQuestionAttempts (Some flaky_client) ''q1''
        [(''algebra.xml'', None, None), (''algebra.xml'', None, None),
         (''algebra.xml'', None, None)]
        (started_page 0))))
     = [Some (Num 1), Some (Num 1), Some (Num 2)]
   \<and> map number_sent
       (issued (snd (createQuestionAttempts (Some flaky_client) ''q1''
          [(''algebra.xml'', None, None), (''algebra.xml'', None, None),
           (''algebra.xml'', None, None)]
          (started_page 0))))
     \<noteq> [Some (Num 1), Some (Num 2), Some (Num 3)]"
  by (simp add: createQuestionAttempt_def flaky_client_def send_def catch_null_def
        started_page_def empty_object_def property_read_def property_write_def
        object_prototype_names_def Let_def)

subsection \<open>One final answer for an attempt and an input\<close>

lemma filter_key_single:
  "distinct (map f xs) \<Longrightarrow> x \<in> set xs \<Longrightarrow> filter (\<lambda>r. f r = f x) xs = [x]"
proof (induction xs)
  case Nil
  then show ?case by simp
next
  case (Cons y ys)
  show ?case
  proof (cases "y = x")
    case True
    have "f x \<notin> f ` set ys" using Cons.prems(1) True by simp
    then have "\<forall>r\<in>set ys. f r \<noteq> f x" by (metis imageI)
    then have "filter (\<lambda>r. f r = f x) ys = []"
      by (simp add: filter_empty_conv)
    then show ?thesis using True by simp
  next
    case False
    then have "x \<in> set ys" using Cons.prems(2) by simp
    moreover have "f y \<noteq> f x" using Cons.prems(1) \<open>x \<in> set ys\<close> by auto
    ultimately show ?thesis using Cons by simp
  qed
qed

lemma filter_map_preserved:
  "(\<And>y. P (g y) = P y) \<Longrightarrow> filter P (map g xs) = map g (filter P xs)"
  by (induction xs) simp_all

lemma store_select_attempt_found:
  assumes "length (filter (\<lambda>r. at_id r = i) (question_attempts db)) = 1"
  shows "store_select_attempt (Some i) db = (Resolves (Some i) None, db)"
proof -
  obtain r where r: "filter (\<lambda>r. at_id r = i) (question_attempts db) = [r]"
    using assms by (cases "filter (\<lambda>r. at_id r = i) (question_attempts db)") auto
  then have "r \<in> set (filter (\<lambda>r. at_id r = i) (question_attempts db))" by simp
  then have "at_id r = i" by simp
  then show ?thesis by (simp add: store_select_attempt_def maybeSingle_def r)
qed

lemma consolidated_first:
  assumes "currentSession w = Some cs"
    and "final_answers (at_id a) n (database w) = []"
    and "input_keys_ok (database w)"
  shows "map input_value (final_answers (at_id a) n
           (database (snd (trackConsolidatedInput store_client e (Attempt a) n v t r w)))) = [v]"
    and "input_keys_ok (database (snd (trackConsolidatedInput store_client e (Attempt a) n v t r w)))"
    and "question_attempts (database (snd (trackConsolidatedInput store_client e (Attempt a) n v t r w)))
           = question_attempts (database w)"
    and "currentSession (snd (trackConsolidatedInput store_client e (Attempt a) n v t r w)) = currentSession w"
    and "currentAttempts (snd (trackConsolidatedInput store_client e (Attempt a) n v t r w)) = currentAttempts w"
  using assms
  by (auto simp add: trackConsolidatedInput_def store_client_def send_def store_select_input_def
        maybeSingle_def store_insert_input_def final_answers_def input_keys_ok_def Let_def
        list_all_iff)

lemma consolidated_again:
  assumes one: "final_answers (at_id a) n (database w) = [x]"
    and keys: "input_keys_ok (database w)"
  shows "map input_value (final_answers (at_id a) n
           (database (snd (trackConsolidatedInput store_client e (Attempt a) n v t r w)))) = [v]"
    and "input_keys_ok (database (snd (trackConsolidatedInput store_client e (Attempt a) n v t r w)))"
    and "question_attempts (database (snd (trackConsolidatedInput store_client e (Attempt a) n v t r w)))
           = question_attempts (database w)"
    and "currentSession (snd (trackConsolidatedInput store_client e (Attempt a) n v t r w)) = currentSession w"
    and "currentAttempts (snd (trackConsolidatedInput store_client e (Attempt a) n v t r w)) = currentAttempts w"
proof -
  let ?f = "\<lparr>new_input_value = v, new_validation_result = r, new_timestamp = iso_now e\<rparr>"
  let ?P = "\<lambda>r. attempt_id r = at_id a \<and> input_name r = n \<and> is_final_answer r"
  let ?g = "\<lambda>y. if in_id y = in_id x then apply_input_update ?f y else y"
  have "x \<in> set (final_answers (at_id a) n (database w))" using one by simp
  then have mem: "x \<in> set (input_tracking (database w))" by (simp add: final_answers_def)
  have byid: "filter (\<lambda>r. in_id r = in_id x) (input_tracking (database w)) = [x]"
    using keys mem by (intro filter_key_single) (simp_all add: input_keys_ok_def)
  have upd: "store_update_input ?f (in_id x) (database w) =
      (Resolves (Some (apply_input_update ?f x)) None,
       (database w)\<lparr>input_tracking := map ?g (input_tracking (database w))\<rparr>)"
    by (simp add: store_update_input_def byid)
  have run: "snd (trackConsolidatedInput store_client e (Attempt a) n v t r w) =
      w\<lparr>database := (database w)\<lparr>input_tracking := map ?g (input_tracking (database w))\<rparr>,
        issued := issued w @ [Select_input_tracking (Some (at_id a)) n, Update_input_tracking ?f (in_id x)]\<rparr>"
    using one upd
    by (simp add: trackConsolidatedInput_def store_client_def send_def store_select_input_def
          maybeSingle_def Let_def)
  have pres: "?P (?g y) = ?P y" for y by (simp add: apply_input_update_def)
  have "filter ?P (map ?g (input_tracking (database w)))
          = map ?g (filter ?P (input_tracking (database w)))"
    using pres by (rule filter_map_preserved)
  then have fin: "final_answers (at_id a) n
      ((database w)\<lparr>input_tracking := map ?g (input_tracking (database w))\<rparr>) = [?g x]"
    using one by (simp add: final_answers_def)
  show "map input_value (final_answers (at_id a) n
           (database (snd (trackConsolidatedInput store_client e (Attempt a) n v t r w)))) = [v]"
    unfolding run using fin by (simp add: apply_input_update_def)
  have ids: "map in_id (map ?g (input_tracking (database w))) = map in_id (input_tracking (database w))"
    by (simp add: apply_input_update_def)
  have "list_all (\<lambda>r. in_id r < next_id (database w)) (map ?g (input_tracking (database w)))"
    using keys by (auto simp add: input_keys_ok_def list_all_iff apply_input_update_def)
  moreover have "distinct (map in_id (map ?g (input_tracking (database w))))"
    unfolding ids using keys by (simp add: input_keys_ok_def)
  ultimately show "input_keys_ok (database (snd (trackConsolidatedInput store_client e (Attempt a) n v t r w)))"
    unfolding run by (simp add: input_keys_ok_def)
  show "question_attempts (database (snd (trackConsolidatedInput store_client e (Attempt a) n v t r w)))
           = question_attempts (database w)"
    unfolding run by simp
  show "currentSession (snd (trackConsolidatedInput store_client e (Attempt a) n v t r w)) = currentSession w"
    unfolding run by simp
  show "currentAttempts (snd (trackConsolidatedInput store_client e (Attempt a) n v t r w)) = currentAttempts w"
    unfolding run by simp
qed

lemma trackInput_final_once:
  assumes "ready w qprefix attempt inputName"
  shows "map input_value (final_answers (at_id attempt) inputName
           (database (snd (trackInput (Some store_client) e qprefix inputName v t True r w)))) = [v]"
    and "ready (snd (trackInput (Some store_client) e qprefix inputName v t True r w))
           qprefix attempt inputName"
proof -
  let ?w1 = "w\<lparr>database := database w,
                issued := issued w @ [Select_question_attempts (Some (at_id attempt))]\<rparr>"
  let ?w2 = "snd (trackConsolidatedInput store_client e (Attempt attempt) inputName v t r ?w1)"
  obtain cs where cs: "currentSession w = Some cs"
    using assms by (auto simp: ready_def)
  have ca: "property_read (currentAttempts w) qprefix = Attempt attempt"
    and ex: "length (filter (\<lambda>r. at_id r = at_id attempt) (question_attempts (database w))) = 1"
    and keys: "input_keys_ok (database w)"
    and le: "length (final_answers (at_id attempt) inputName (database w)) \<le> 1"
    using assms by (simp_all add: ready_def)
  have sel: "select_question_attempts store_client (Some (at_id attempt)) (database w)
               = (Resolves (Some (at_id attempt)) None, database w)"
    using store_select_attempt_found [OF ex] by (simp add: store_client_def)
  have snd_catch: "snd (catch_null z) = snd z" for z :: "input_row option completion \<times> store page"
    by (cases z) (simp add: catch_null_def split: completion.splits)
  have run: "snd (trackInput (Some store_client) e qprefix inputName v t True r w) = ?w2"
    using cs ca sel by (simp add: trackInput_def send_def snd_catch Let_def)
  have cs1: "currentSession ?w1 = Some cs" and keys1: "input_keys_ok (database ?w1)"
    and db1: "database ?w1 = database w" and ca1: "currentAttempts ?w1 = currentAttempts w"
    using cs keys by simp_all
  have all: "map input_value (final_answers (at_id attempt) inputName (database ?w2)) = [v]
       \<and> input_keys_ok (database ?w2)
       \<and> question_attempts (database ?w2) = question_attempts (database w)
       \<and> currentSession ?w2 = Some cs
       \<and> currentAttempts ?w2 = currentAttempts w"
  proof (cases "final_answers (at_id attempt) inputName (database w)")
    case Nil
    then have none: "final_answers (at_id attempt) inputName (database ?w1) = []"
      by simp
    show ?thesis
      using consolidated_first [OF cs1 none keys1, of e v t r] cs by simp
  next
    case (Cons x xs)
    then have "xs = []" using le by simp
    then have one: "final_answers (at_id attempt) inputName (database ?w1) = [x]"
      using Cons by simp
    show ?thesis
      using consolidated_again [OF one keys1, of e v t r] cs by simp
  qed
  show "map input_value (final_answers (at_id attempt) inputName
           (database (snd (trackInput (Some store_client) e qprefix inputName v t True r w)))) = [v]"
    unfolding run using all by simp
  have "length (final_answers (at_id attempt) inputName (database ?w2)) = 1"
    using all by (metis length_map length_Cons list.size(3) One_nat_def)
  then show "ready (snd (trackInput (Some store_client) e qprefix inputName v t True r w))
           qprefix attempt inputName"
    unfolding run using all ca ex by (simp add: ready_def)
qed

lemma answering_page_reached:
  "currentSession
     (snd (createQuestionAttempt (Some store_client) ''algebra.xml'' None ''q1'' None
        (snd (initializeDatabaseSession (Some store_client) browser (loaded_page empty_store)))))
     = currentSession (answering_page answering_store)
   \<and> property_read
       (currentAttempts
          (snd (createQuestionAttempt (Some store_client) ''algebra.xml'' None ''q1'' None
             (snd (initializeDatabaseSession (Some store_client) browser
                     (loaded_page empty_store))))))
       ''q1''
     = property_read (currentAttempts (answering_page answering_store)) ''q1''
   \<and> database
       (snd (createQuestionAttempt (Some store_client) ''algebra.xml'' None ''q1'' None
          (snd (initializeDatabaseSession (Some store_client) browser (loaded_page empty_store)))))
     = database (answering_page answering_store)"
  by (simp add: createQuestionAttempt_def initializeDatabaseSession_def store_client_def
        store_insert_session_def store_insert_attempt_def send_def catch_null_def
        generateAnonymousId_def missing_column_def loaded_page_def empty_store_def browser_def
        answering_page_def answering_store_def session1_def attempt1_def Let_def
        eval_nat_numeral property_read_def property_write_def empty_object_def
        object_prototype_names_def)

text \<open>
  C1. On the store run against above, take a page with a session and a cached
  attempt for the prefix, the attempt being in \<^verbatim>\<open>question_attempts\<close> once, and a store
  that holds at most one final answer for the attempt and the input name. After two
  calls of \<^verbatim>\<open>trackInput\<close> with \<^verbatim>\<open>isFinalAnswer\<close> true for that prefix and input name, the
  second starting when the first is over, \<^verbatim>\<open>input_tracking\<close> holds exactly one row that
  is a final answer for that attempt and input name, and its value is the value of the
  second call.
\<close>

theorem trackInput_final_twice:
  assumes "ready w qprefix attempt inputName"
  shows "map input_value
           (final_answers (at_id attempt) inputName
              (database
                 (snd (trackInput (Some store_client) e2 qprefix inputName v2 t2 True r2
                         (snd (trackInput (Some store_client) e1 qprefix inputName v1 t1 True r1
                                 w))))))
         = [v2]"
  using trackInput_final_once(1)
          [OF trackInput_final_once(2) [OF assms, of e1 v1 t1 r1], of e2 v2 t2 r2]
  by simp

theorem trackInput_final_twice_witness:
  "ready (answering_page answering_store) ''q1'' attempt1 ''ans1''
   \<and> map input_value
        (final_answers 2 ''ans1''
           (database
              (snd (trackInput (Some store_client) browser ''q1'' ''ans1'' (JStr ''x^2'')
                      (JStr ''text'') True JNull
                      (snd (trackInput (Some store_client) browser ''q1'' ''ans1'' (JStr ''x'')
                              (JStr ''text'') True JNull (answering_page answering_store)))))))
       = [JStr ''x^2'']"
proof -
  have h: "ready (answering_page answering_store) ''q1'' attempt1 ''ans1''"
    by (simp add: ready_def answering_page_def answering_store_def attempt1_def
          input_keys_ok_def final_answers_def property_read_def)
  have a: "at_id attempt1 = 2"
    by (simp add: attempt1_def)
  show ?thesis
    using h trackInput_final_twice [OF h, of browser "JStr ''x^2''" "JStr ''text''" JNull
                                      browser "JStr ''x''" "JStr ''text''" JNull]
    unfolding a by simp
qed

end
